theory Spec2Isabelle
  imports Complex_Main "HOL-Library.Word"
begin

section \<open>JavaScript strings\<close>

text \<open>
  A JavaScript string is a sequence of UTF-16 code units. The regular expressions of the
  validators carry no \<^verbatim>\<open>u\<close> flag, so they too read the string one code unit at a time.
\<close>

type_synonym code_unit = "16 word"
type_synonym jsstring = "code_unit list"

text \<open>An ASCII string literal of the source, as its code units.\<close>

definition lit :: "string \<Rightarrow> jsstring" where
  "lit s = map (\<lambda>c. of_nat (of_char c)) s"

text \<open>
  ECMAScript \<^verbatim>\<open>WhiteSpace\<close>: TAB, VT, FF, ZWNBSP and the code points of category Zs;
  \<^verbatim>\<open>LineTerminator\<close>: LF, CR, LS, PS.
\<close>

definition is_WhiteSpace :: "code_unit \<Rightarrow> bool" where
  "is_WhiteSpace c =
     (c = 0x0009 \<or> c = 0x000B \<or> c = 0x000C \<or> c = 0xFEFF \<or>
      c = 0x0020 \<or> c = 0x00A0 \<or> c = 0x1680 \<or> (0x2000 \<le> c \<and> c \<le> 0x200A) \<or>
      c = 0x202F \<or> c = 0x205F \<or> c = 0x3000)"

definition is_LineTerminator :: "code_unit \<Rightarrow> bool" where
  "is_LineTerminator c = (c = 0x000A \<or> c = 0x000D \<or> c = 0x2028 \<or> c = 0x2029)"

definition is_space :: "code_unit \<Rightarrow> bool" where
  "is_space c = (is_WhiteSpace c \<or> is_LineTerminator c)"

text \<open>
  \<^verbatim>\<open>String.prototype.trim\<close>: the string without its leading and trailing white space and
  line terminators.
\<close>

definition trim :: "jsstring \<Rightarrow> jsstring" where
  "trim s = rev (dropWhile is_space (rev (dropWhile is_space s)))"

section \<open>Regular expressions\<close>

text \<open>
  The patterns of the validators use character classes with ranges and the escapes
  \<^verbatim>\<open>\s\<close> and \<^verbatim>\<open>\d\<close>, the quantifiers \<^verbatim>\<open>?\<close> and \<^verbatim>\<open>+\<close>, and concatenation.
  A literal character or an escape that stands outside brackets is the class of that one
  atom: \<^verbatim>\<open>-\<close> is \<open>Class [Single 0x002D]\<close> and \<^verbatim>\<open>\d\<close> is \<open>Class [EscapeD]\<close>.
  The matcher takes the derivative of the pattern by each code unit in turn and accepts
  when what is left matches the empty string; it decides whether a match exists, which
  is all \<^verbatim>\<open>test\<close> reports.
\<close>

datatype class_atom =
    Single code_unit
  | Range code_unit code_unit
  | EscapeS
  | EscapeD

fun atom_accepts :: "class_atom \<Rightarrow> code_unit \<Rightarrow> bool" where
  "atom_accepts (Single a) c = (c = a)"
| "atom_accepts (Range lo hi) c = (lo \<le> c \<and> c \<le> hi)"
| "atom_accepts EscapeS c = is_space c"
| "atom_accepts EscapeD c = (0x0030 \<le> c \<and> c \<le> 0x0039)"

definition class_accepts :: "class_atom list \<Rightarrow> code_unit \<Rightarrow> bool" where
  "class_accepts cls c = list_ex (\<lambda>a. atom_accepts a c) cls"

datatype regex =
    Fail
  | Eps
  | Class "class_atom list"
  | Alt regex regex
  | Seq regex regex
  | Star regex

text \<open>\<^verbatim>\<open>r?\<close> is \<^verbatim>\<open>r{0,1}\<close> and \<^verbatim>\<open>r+\<close> is \<^verbatim>\<open>r{1,}\<close>.\<close>

definition Opt :: "regex \<Rightarrow> regex" where
  "Opt r = Alt r Eps"

definition Plus :: "regex \<Rightarrow> regex" where
  "Plus r = Seq r (Star r)"

primrec nullable :: "regex \<Rightarrow> bool" where
  "nullable Fail = False"
| "nullable Eps = True"
| "nullable (Class cls) = False"
| "nullable (Alt r q) = (nullable r \<or> nullable q)"
| "nullable (Seq r q) = (nullable r \<and> nullable q)"
| "nullable (Star r) = True"

primrec deriv :: "code_unit \<Rightarrow> regex \<Rightarrow> regex" where
  "deriv c Fail = Fail"
| "deriv c Eps = Fail"
| "deriv c (Class cls) = (if class_accepts cls c then Eps else Fail)"
| "deriv c (Alt r q) = Alt (deriv c r) (deriv c q)"
| "deriv c (Seq r q) =
     (if nullable r then Alt (Seq (deriv c r) q) (deriv c q) else Seq (deriv c r) q)"
| "deriv c (Star r) = Seq (deriv c r) (Star r)"

primrec matches :: "regex \<Rightarrow> jsstring \<Rightarrow> bool" where
  "matches r [] = nullable r"
| "matches r (c # cs) = matches (deriv c r) cs"

text \<open>
  \<^verbatim>\<open>/^body$/.test(s)\<close> without flags: \<^verbatim>\<open>^\<close> holds only at the start of the input and
  \<^verbatim>\<open>$\<close> only at its end, so the test succeeds exactly when the body matches all of \<open>s\<close>.
\<close>

definition test_anchored :: "regex \<Rightarrow> jsstring \<Rightarrow> bool" where
  "test_anchored body s = matches body s"

section \<open>JavaScript numbers\<close>

text \<open>
  A \<^verbatim>\<open>number\<close> is NaN, an infinity or a finite value. The validators only compare
  numbers with constants, and a comparison of two finite doubles is the comparison of the
  rationals they stand for.
\<close>

datatype number = NaN | NegInfinity | PosInfinity | Finite rat

definition isNaN :: "number \<Rightarrow> bool" where
  "isNaN x = (x = NaN)"

text \<open>The operator \<^verbatim>\<open><\<close>: every comparison with NaN is false.\<close>

fun number_less :: "number \<Rightarrow> number \<Rightarrow> bool" where
  "number_less NaN y = False"
| "number_less x NaN = False"
| "number_less (Finite a) (Finite b) = (a < b)"
| "number_less x NegInfinity = False"
| "number_less NegInfinity y = True"
| "number_less PosInfinity y = False"
| "number_less (Finite a) PosInfinity = True"

text \<open>The operator \<^verbatim>\<open>>\<close>.\<close>

definition number_greater :: "number \<Rightarrow> number \<Rightarrow> bool" where
  "number_greater x y = number_less y x"

section \<open>The validators of \<^verbatim>\<open>validation.ts\<close>\<close>

text \<open>\<^verbatim>\<open>/^-?\d+$/.test(value.trim())\<close>\<close>

definition isInteger :: "jsstring \<Rightarrow> bool" where
  "isInteger v =
     test_anchored (Seq (Opt (Class [Single 0x002D])) (Plus (Class [EscapeD]))) (trim v)"

text \<open>The name must be non-empty and match \<^verbatim>\<open>/^[a-zA-Z\s]+$/\<close>.\<close>

definition validateName :: "jsstring \<Rightarrow> jsstring" where
  "validateName name =
     (let englishOnlyRegex = Plus (Class [Range 0x0061 0x007A, Range 0x0041 0x005A, EscapeS])
      in if trim name = lit '''' then lit ''Please enter Employee Name''
         else if \<not> test_anchored englishOnlyRegex name
           then lit ''Name is not valid, please enter in english.''
         else lit '''')"

definition validateNumericField :: "jsstring \<Rightarrow> jsstring \<Rightarrow> jsstring" where
  "validateNumericField v fieldName =
     (if trim v = lit '''' then lit ''Please enter '' @ fieldName
      else if \<not> isInteger v then lit ''Please enter with integer or whole number''
      else lit '''')"

text \<open>\<^verbatim>\<open>errors.push(m)\<close> appends \<open>m\<close> to the array.\<close>

definition push :: "jsstring list \<Rightarrow> jsstring \<Rightarrow> jsstring list" where
  "push errors m = errors @ [m]"

definition validateInputRanges :: "number \<Rightarrow> number \<Rightarrow> number \<Rightarrow> jsstring list" where
  "validateInputRanges locks stocks barrels =
     (let errors = [];
          errors =
            (if isNaN locks \<or> number_less locks (Finite 1) \<or> number_greater locks (Finite 70)
             then push errors (lit ''Locks must be between 1 and 70'') else errors);
          errors =
            (if isNaN stocks \<or> number_less stocks (Finite 1) \<or> number_greater stocks (Finite 80)
             then push errors (lit ''Stocks must be between 1 and 80'') else errors);
          errors =
            (if isNaN barrels \<or> number_less barrels (Finite 1) \<or> number_greater barrels (Finite 90)
             then push errors (lit ''Barrels must be between 1 and 90'') else errors)
      in errors)"

section \<open>The second copy of the validators, in \<^verbatim>\<open>api.ts\<close>\<close>

definition isInteger_api :: "jsstring \<Rightarrow> bool" where
  "isInteger_api v =
     test_anchored (Seq (Opt (Class [Single 0x002D])) (Plus (Class [EscapeD]))) (trim v)"

text \<open>
  The name must be non-empty and match the class of \<^verbatim>\<open>a-z\<close>, \<^verbatim>\<open>A-Z\<close>,
  the code units U+0E00 to U+0E7F and \<^verbatim>\<open>\s\<close>, once or more, between \<^verbatim>\<open>^\<close> and \<^verbatim>\<open>$\<close>.
\<close>

definition validateName_api :: "jsstring \<Rightarrow> jsstring" where
  "validateName_api name =
     (let thaiOrEnglishRegex =
            Plus (Class [Range 0x0061 0x007A, Range 0x0041 0x005A, Range 0x0E00 0x0E7F, EscapeS])
      in if trim name = lit '''' then lit ''Please enter Employee Name''
         else if \<not> test_anchored thaiOrEnglishRegex name
           then lit ''Name must be Thai or English letters only''
         else lit '''')"

definition validateNumericField_api :: "jsstring \<Rightarrow> jsstring \<Rightarrow> jsstring" where
  "validateNumericField_api v fieldName =
     (if trim v = lit '''' then lit ''Please enter '' @ fieldName
      else if \<not> isInteger_api v then lit ''Please enter with integer or whole number''
      else lit '''')"

definition validateInputRanges_api :: "number \<Rightarrow> number \<Rightarrow> number \<Rightarrow> jsstring list" where
  "validateInputRanges_api locks stocks barrels =
     (let errors = [];
          errors =
            (if isNaN locks \<or> number_less locks (Finite 1) \<or> number_greater locks (Finite 70)
             then push errors (lit ''Locks must be between 1 and 70'') else errors);
          errors =
            (if isNaN stocks \<or> number_less stocks (Finite 1) \<or> number_greater stocks (Finite 80)
             then push errors (lit ''Stocks must be between 1 and 80'') else errors);
          errors =
            (if isNaN barrels \<or> number_less barrels (Finite 1) \<or> number_greater barrels (Finite 90)
             then push errors (lit ''Barrels must be between 1 and 90'') else errors)
      in errors)"

section \<open>The specification's vocabulary\<close>

text \<open>A decimal digit, a Latin letter, a character of the Thai block U+0E00 to U+0E7F.\<close>

definition is_decimal_digit :: "code_unit \<Rightarrow> bool" where
  "is_decimal_digit c = (0x0030 \<le> c \<and> c \<le> 0x0039)"

definition is_latin_letter :: "code_unit \<Rightarrow> bool" where
  "is_latin_letter c = ((0x0041 \<le> c \<and> c \<le> 0x005A) \<or> (0x0061 \<le> c \<and> c \<le> 0x007A))"

definition is_thai :: "code_unit \<Rightarrow> bool" where
  "is_thai c = (0x0E00 \<le> c \<and> c \<le> 0x0E7F)"

text \<open>
  An integer literal in the specification's words: an optional leading minus sign, then
  one or more decimal digits, and nothing else.
\<close>

definition integer_literal :: "jsstring \<Rightarrow> bool" where
  "integer_literal s =
     (let digits = (case s of [] \<Rightarrow> [] | c # cs \<Rightarrow> if c = 0x002D then cs else s)
      in digits \<noteq> [] \<and> list_all is_decimal_digit digits)"

text \<open>The characters each name policy allows.\<close>

definition bilingual_char :: "code_unit \<Rightarrow> bool" where
  "bilingual_char c = (is_latin_letter c \<or> is_thai c \<or> is_space c)"

definition latin_char :: "code_unit \<Rightarrow> bool" where
  "latin_char c = (is_latin_letter c \<or> is_space c)"

text \<open>
  A message incorporates a label when the label occurs in it as a run of consecutive
  code units.
\<close>

fun starts_with :: "jsstring \<Rightarrow> jsstring \<Rightarrow> bool" where
  "starts_with s [] = True"
| "starts_with [] (p # ps) = False"
| "starts_with (c # cs) (p # ps) = (c = p \<and> starts_with cs ps)"

fun incorporates :: "jsstring \<Rightarrow> jsstring \<Rightarrow> bool" where
  "incorporates [] sub = (sub = [])"
| "incorporates (c # cs) sub = (starts_with (c # cs) sub \<or> incorporates cs sub)"

section \<open>The validators with the exceptions of the built-ins\<close>

text \<open>
  A call completes normally with a value or abruptly with an exception. The validators
  hold no \<^verbatim>\<open>throw\<close> of their own, so an exception can only come out of a built-in
  they call.
\<close>

datatype exception = RangeError | TypeError












section \<open>The strings a pattern matches\<close>

text \<open>
  The language of a pattern, as a relation between the pattern and the strings it matches
  in full. It is the reference the derivative matcher is proved against.
\<close>

inductive denotes :: "regex \<Rightarrow> jsstring \<Rightarrow> bool" where
  in_eps: "denotes Eps []"
| in_class: "class_accepts cls c \<Longrightarrow> denotes (Class cls) [c]"
| in_left: "denotes r s \<Longrightarrow> denotes (Alt r q) s"
| in_right: "denotes q s \<Longrightarrow> denotes (Alt r q) s"
| in_seq: "denotes r u \<Longrightarrow> denotes q v \<Longrightarrow> denotes (Seq r q) (u @ v)"
| in_star_none: "denotes (Star r) []"
| in_star_more: "denotes r u \<Longrightarrow> denotes (Star r) v \<Longrightarrow> denotes (Star r) (u @ v)"

section \<open>Correctness of the matcher\<close>

inductive_simps denotes_Fail [simp]: "denotes Fail s"
inductive_simps denotes_Eps [simp]: "denotes Eps s"
inductive_simps denotes_Class [simp]: "denotes (Class cls) s"
inductive_simps denotes_Alt [simp]: "denotes (Alt r q) s"
inductive_simps denotes_Seq: "denotes (Seq r q) s"

lemma nullable_denotes: "nullable r = denotes r []"
  by (induction r) (auto simp: denotes_Seq intro: in_star_none)

lemma deriv_sound: "denotes (deriv c r) s \<Longrightarrow> denotes r (c # s)"
proof (induction r arbitrary: s)
  case (Seq r q)
  show ?case
  proof (cases "nullable r \<and> denotes (deriv c q) s")
    case True
    then have "denotes r []" and "denotes q (c # s)"
      using Seq.IH(2) by (simp_all add: nullable_denotes)
    then have "denotes (Seq r q) ([] @ c # s)" by (rule in_seq)
    then show ?thesis by simp
  next
    case False
    with Seq.prems obtain u v where "s = u @ v" "denotes (deriv c r) u" "denotes q v"
      by (auto simp: denotes_Seq split: if_splits)
    then have "denotes (Seq r q) ((c # u) @ v)"
      using Seq.IH(1) by (intro in_seq) auto
    then show ?thesis using \<open>s = u @ v\<close> by simp
  qed
next
  case (Star r)
  then obtain u v where "s = u @ v" "denotes (deriv c r) u" "denotes (Star r) v"
    by (auto simp: denotes_Seq)
  then have "denotes (Star r) ((c # u) @ v)"
    using Star.IH by (intro in_star_more) auto
  then show ?case using \<open>s = u @ v\<close> by simp
qed (auto split: if_splits)

lemma deriv_complete: "denotes r w \<Longrightarrow> w = c # s \<Longrightarrow> denotes (deriv c r) s"
proof (induction r w arbitrary: s rule: denotes.induct)
  case (in_seq r u q v)
  show ?case
  proof (cases u)
    case Nil
    then have "denotes (deriv c q) s" "nullable r"
      using in_seq by (simp_all add: nullable_denotes)
    then show ?thesis by simp
  next
    case (Cons a u')
    then have "denotes (deriv c r) u'" "s = u' @ v"
      using in_seq by simp_all
    then have "denotes (Seq (deriv c r) q) s"
      using in_seq.hyps(2) by (auto simp: denotes_Seq)
    then show ?thesis by simp
  qed
next
  case (in_star_more r u v)
  show ?case
  proof (cases u)
    case Nil
    then show ?thesis using in_star_more by simp
  next
    case (Cons a u')
    then have "denotes (deriv c r) u'" "s = u' @ v"
      using in_star_more by simp_all
    then show ?thesis
      using in_star_more.hyps(2) by (auto simp: denotes_Seq)
  qed
qed auto

lemma matches_denotes: "matches r s = denotes r s"
proof (induction s arbitrary: r)
  case Nil
  show ?case by (simp add: nullable_denotes)
next
  case (Cons c cs)
  show ?case using Cons.IH [of "deriv c r"] deriv_sound deriv_complete by auto
qed

lemma star_class_only: "denotes r s \<Longrightarrow> r = Star (Class cls) \<Longrightarrow> list_all (class_accepts cls) s"
  by (induction r s rule: denotes.induct) auto

lemma star_class_all: "list_all (class_accepts cls) s \<Longrightarrow> denotes (Star (Class cls)) s"
proof (induction s)
  case Nil
  show ?case by (rule in_star_none)
next
  case (Cons c cs)
  then have "denotes (Class cls) [c]" "denotes (Star (Class cls)) cs" by simp_all
  then have "denotes (Star (Class cls)) ([c] @ cs)" by (rule in_star_more)
  then show ?case by simp
qed

lemma denotes_star_class: "denotes (Star (Class cls)) s = list_all (class_accepts cls) s"
  using star_class_only star_class_all by blast

lemma denotes_class_then:
  "denotes (Seq (Class cls) q) s = (\<exists>c v. s = c # v \<and> class_accepts cls c \<and> denotes q v)"
proof
  assume "denotes (Seq (Class cls) q) s"
  then show "\<exists>c v. s = c # v \<and> class_accepts cls c \<and> denotes q v"
    by (auto simp: denotes_Seq)
next
  assume "\<exists>c v. s = c # v \<and> class_accepts cls c \<and> denotes q v"
  then obtain c v where s: "s = c # v" and "class_accepts cls c" and "denotes q v" by blast
  then have "denotes (Seq (Class cls) q) ([c] @ v)"
    by (intro in_seq in_class)
  then show "denotes (Seq (Class cls) q) s" using s by simp
qed

lemma denotes_opt_then:
  "denotes (Seq (Opt r) q) s = (denotes (Seq r q) s \<or> denotes q s)"
proof
  assume "denotes (Seq (Opt r) q) s"
  then show "denotes (Seq r q) s \<or> denotes q s"
    by (auto simp: denotes_Seq Opt_def)
next
  assume "denotes (Seq r q) s \<or> denotes q s"
  then show "denotes (Seq (Opt r) q) s"
  proof
    assume "denotes (Seq r q) s"
    then show ?thesis by (auto simp: denotes_Seq Opt_def)
  next
    assume "denotes q s"
    then have "denotes (Seq (Opt r) q) ([] @ s)"
      unfolding Opt_def by (intro in_seq in_right in_eps)
    then show ?thesis by simp
  qed
qed

lemma denotes_plus_class:
  "denotes (Plus (Class cls)) s = (s \<noteq> [] \<and> list_all (class_accepts cls) s)"
  by (cases s) (auto simp: Plus_def denotes_class_then denotes_star_class)

lemma test_plus_class:
  "test_anchored (Plus (Class cls)) s = (s \<noteq> [] \<and> list_all (class_accepts cls) s)"
  by (simp add: test_anchored_def matches_denotes denotes_plus_class)

lemma digit_class: "class_accepts [EscapeD] = is_decimal_digit"
  by (rule ext) (simp add: class_accepts_def is_decimal_digit_def)

lemma single_class: "class_accepts [Single a] c = (c = a)"
  by (simp add: class_accepts_def)

lemma minus_not_digit: "\<not> is_decimal_digit 0x002D"
  by (simp add: is_decimal_digit_def)

lemma test_integer_pattern:
  "test_anchored (Seq (Opt (Class [Single 0x002D])) (Plus (Class [EscapeD]))) s = integer_literal s"
proof -
  have "test_anchored (Seq (Opt (Class [Single 0x002D])) (Plus (Class [EscapeD]))) s =
      ((\<exists>v. s = 0x002D # v \<and> v \<noteq> [] \<and> list_all is_decimal_digit v) \<or>
       (s \<noteq> [] \<and> list_all is_decimal_digit s))"
    by (simp add: test_anchored_def matches_denotes denotes_opt_then denotes_class_then
        denotes_plus_class digit_class single_class)
  also have "\<dots> = integer_literal s"
    using minus_not_digit by (cases s) (auto simp: integer_literal_def)
  finally show ?thesis .
qed

lemma trim_empty: "(trim s = []) = list_all is_space s"
proof -
  have "(trim s = []) = (dropWhile is_space s = [])"
  proof (cases "dropWhile is_space s")
    case Nil
    show ?thesis unfolding trim_def Nil by simp
  next
    case (Cons x xs)
    then have "\<not> is_space x" using hd_dropWhile [of is_space s] by simp
    then show ?thesis
      using Cons by (auto simp: trim_def dropWhile_eq_Nil_conv)
  qed
  then show ?thesis
    by (simp add: dropWhile_eq_Nil_conv list_all_iff)
qed

lemma bilingual_class:
  "class_accepts [Range 0x0061 0x007A, Range 0x0041 0x005A, Range 0x0E00 0x0E7F, EscapeS] = bilingual_char"
  by (rule ext) (auto simp: class_accepts_def bilingual_char_def is_latin_letter_def is_thai_def)

lemma latin_class:
  "class_accepts [Range 0x0061 0x007A, Range 0x0041 0x005A, EscapeS] = latin_char"
  by (rule ext) (auto simp: class_accepts_def latin_char_def is_latin_letter_def)


section \<open>Facts about the validators\<close>

lemma lit_Nil: "lit '''' = []"
  by (simp add: lit_def)

lemma trim_Nil: "trim [] = []"
  by (simp add: trim_def)

lemma trim_nonempty: "trim s \<noteq> [] \<Longrightarrow> s \<noteq> []"
  using trim_Nil by auto

lemma in_dropWhile: "x \<in> set xs \<Longrightarrow> \<not> P x \<Longrightarrow> x \<in> set (dropWhile P xs)"
  by (induction xs) auto

lemma in_trim: "c \<in> set s \<Longrightarrow> \<not> is_space c \<Longrightarrow> c \<in> set (trim s)"
  by (simp add: trim_def in_dropWhile)

lemma empty_name_message: "lit ''Please enter Employee Name'' \<noteq> []"
  by (simp add: lit_def)

lemma english_message: "lit ''Name is not valid, please enter in english.'' \<noteq> []"
  by (simp add: lit_def)

lemma thai_message: "lit ''Name must be Thai or English letters only'' \<noteq> []"
  by (simp add: lit_def)

lemma integer_message: "lit ''Please enter with integer or whole number'' \<noteq> []"
  by (simp add: lit_def)

lemma empty_vs_english:
  "lit ''Please enter Employee Name'' \<noteq> lit ''Name is not valid, please enter in english.''"
  by (simp add: lit_def)

lemma empty_vs_thai:
  "lit ''Please enter Employee Name'' \<noteq> lit ''Name must be Thai or English letters only''"
  by (simp add: lit_def)

lemma english_vs_thai:
  "lit ''Name is not valid, please enter in english.'' \<noteq>
   lit ''Name must be Thai or English letters only''"
  by (simp add: lit_def)

lemma range_messages_distinct:
  "lit ''Locks must be between 1 and 70'' \<noteq> lit ''Stocks must be between 1 and 80''"
  "lit ''Locks must be between 1 and 70'' \<noteq> lit ''Barrels must be between 1 and 90''"
  "lit ''Stocks must be between 1 and 80'' \<noteq> lit ''Barrels must be between 1 and 90''"
  by (simp_all add: lit_def)

lemma validateName_cases:
  "validateName name =
     (if trim name = [] then lit ''Please enter Employee Name''
      else if list_all latin_char name then []
      else lit ''Name is not valid, please enter in english.'')"
  using trim_nonempty [of name]
  by (simp add: validateName_def Let_def lit_Nil test_plus_class latin_class)

lemma validateName_api_cases:
  "validateName_api name =
     (if trim name = [] then lit ''Please enter Employee Name''
      else if list_all bilingual_char name then []
      else lit ''Name must be Thai or English letters only'')"
  using trim_nonempty [of name]
  by (simp add: validateName_api_def Let_def lit_Nil test_plus_class bilingual_class)

lemma isInteger_literal: "isInteger v = integer_literal (trim v)"
  by (simp add: isInteger_def test_integer_pattern)

lemma integer_literal_chars:
  "integer_literal s \<Longrightarrow> c \<in> set s \<Longrightarrow> c = 0x002D \<or> is_decimal_digit c"
  by (cases s) (auto simp: integer_literal_def list_all_iff split: if_splits)

lemma integer_literal_nonempty: "integer_literal s \<Longrightarrow> s \<noteq> []"
  by (auto simp: integer_literal_def)

lemma validateNumericField_cases:
  "validateNumericField v fieldName =
     (if trim v = [] then lit ''Please enter '' @ fieldName
      else if isInteger v then []
      else lit ''Please enter with integer or whole number'')"
  by (simp add: validateNumericField_def lit_Nil)

lemma validateNumericField_api_cases:
  "validateNumericField_api v fieldName =
     (if trim v = [] then lit ''Please enter '' @ fieldName
      else if isInteger_api v then []
      else lit ''Please enter with integer or whole number'')"
  by (simp add: validateNumericField_api_def lit_Nil)

lemma please_enter_nonempty: "lit ''Please enter '' @ label \<noteq> []"
  by (simp add: lit_def)

lemma validateInputRanges_parts:
  "validateInputRanges locks stocks barrels =
     (if isNaN locks \<or> number_less locks (Finite 1) \<or> number_greater locks (Finite 70)
      then [lit ''Locks must be between 1 and 70''] else []) @
     (if isNaN stocks \<or> number_less stocks (Finite 1) \<or> number_greater stocks (Finite 80)
      then [lit ''Stocks must be between 1 and 80''] else []) @
     (if isNaN barrels \<or> number_less barrels (Finite 1) \<or> number_greater barrels (Finite 90)
      then [lit ''Barrels must be between 1 and 90''] else [])"
  by (simp add: validateInputRanges_def Let_def push_def)

lemma starts_with_self: "starts_with (s @ t) s"
  by (induction s) auto

lemma incorporates_suffix: "incorporates (p @ s) s"
proof (induction p)
  case Nil
  show ?case using starts_with_self [of s "[]"] by (cases s) auto
next
  case (Cons c p)
  then show ?case by simp
qed


lemma out_of_range_int:
  "(isNaN (Finite (of_int n)) \<or> number_less (Finite (of_int n)) (Finite 1) \<or>
    number_greater (Finite (of_int n)) (Finite (numeral k))) = (n < 1 \<or> numeral k < n)"
  by (simp add: isNaN_def number_greater_def)

lemma please_enter_inject:
  "(lit ''Please enter '' @ a = lit ''Please enter with integer or whole number'') =
   (a = lit ''with integer or whole number'')"
proof -
  have "lit ''Please enter with integer or whole number'' =
      lit ''Please enter '' @ lit ''with integer or whole number''"
    by (simp add: lit_def)
  then show ?thesis by simp
qed

lemma latin_is_bilingual: "latin_char c \<Longrightarrow> bilingual_char c"
  by (auto simp: latin_char_def bilingual_char_def)

lemmas unfold_strings = lit_def trim_def is_space_def is_WhiteSpace_def is_LineTerminator_def
  bilingual_char_def latin_char_def is_latin_letter_def is_thai_def

lemma isInteger_api_same: "isInteger_api v = isInteger v"
  by (simp add: isInteger_api_def isInteger_def)

lemma validateNumericField_api_same:
  "validateNumericField_api v label = validateNumericField v label"
  by (simp add: validateNumericField_api_def validateNumericField_def isInteger_api_same)

lemma not_integer_1_5: "trim (lit ''1.5'') \<noteq> [] \<and> \<not> isInteger (lit ''1.5'')"
  by (simp add: isInteger_literal unfold_strings integer_literal_def is_decimal_digit_def)

lemma validateInputRanges_api_same:
  "validateInputRanges_api l s b = validateInputRanges l s b"
  by (simp add: validateInputRanges_api_def validateInputRanges_def)









section \<open>The claims\<close>

text \<open>
  C1. Under the bilingual policy, \<^verbatim>\<open>validateName\<close> returns the empty string exactly when
  the trimmed name is non-empty and every code unit of the untrimmed name is a Latin
  letter, a character of the Thai block U+0E00 to U+0E7F, or white space. A name whose
  trimmed form is non-empty and that holds any other character gets the
  disallowed-characters message, as \<^verbatim>\<open>John123\<close> and \<^verbatim>\<open>Test!\<close> do, and the name made of
  \<^verbatim>\<open>Ken\<close>, a space and the three Thai characters U+0E40, U+0E04, U+0E19 is valid.
\<close>

theorem validateName_api_bilingual:
  "((validateName_api name = []) = (trim name \<noteq> [] \<and> list_all bilingual_char name)) \<and>
   (trim name \<noteq> [] \<and> \<not> list_all bilingual_char name \<longrightarrow>
      validateName_api name = lit ''Name must be Thai or English letters only'') \<and>
   validateName_api (lit ''John123'') = lit ''Name must be Thai or English letters only'' \<and>
   validateName_api (lit ''Test!'') = lit ''Name must be Thai or English letters only'' \<and>
   validateName_api (lit ''Ken '' @ [0x0E40, 0x0E04, 0x0E19]) = []"
proof -
  have "(validateName_api name = []) = (trim name \<noteq> [] \<and> list_all bilingual_char name)"
    using empty_name_message thai_message by (simp add: validateName_api_cases)
  moreover have "trim name \<noteq> [] \<and> \<not> list_all bilingual_char name \<longrightarrow>
      validateName_api name = lit ''Name must be Thai or English letters only''"
    by (simp add: validateName_api_cases)
  moreover have "validateName_api (lit ''John123'') = lit ''Name must be Thai or English letters only''"
    by (simp add: validateName_api_cases) (simp add: unfold_strings)
  moreover have "validateName_api (lit ''Test!'') = lit ''Name must be Thai or English letters only''"
    by (simp add: validateName_api_cases) (simp add: unfold_strings)
  moreover have "validateName_api (lit ''Ken '' @ [0x0E40, 0x0E04, 0x0E19]) = []"
    by (simp add: validateName_api_cases) (simp add: unfold_strings)
  ultimately show ?thesis by blast
qed

theorem validateName_api_bilingual_witness:
  "trim (lit ''John@Doe'') \<noteq> [] \<and> \<not> list_all bilingual_char (lit ''John@Doe'') \<and>
   validateName_api (lit ''John@Doe'') = lit ''Name must be Thai or English letters only''"
proof -
  have h: "trim (lit ''John@Doe'') \<noteq> [] \<and> \<not> list_all bilingual_char (lit ''John@Doe'')"
    by (simp add: unfold_strings)
  with validateName_api_bilingual [of "lit ''John@Doe''"] show ?thesis by blast
qed

text \<open>
  C2. \<^verbatim>\<open>isInteger(t)\<close> is true if and only if trimming \<open>t\<close> leaves a non-empty string
  made of an optional leading minus sign and then one or more decimal digits. It is false
  for every text that holds a Latin letter or a decimal point, for the empty string, for
  \<^verbatim>\<open>1.5\<close> and for \<^verbatim>\<open>abc\<close>.
\<close>

theorem isInteger_iff_integer_literal:
  "isInteger t = (trim t \<noteq> [] \<and> integer_literal (trim t)) \<and>
   (list_ex is_latin_letter t \<longrightarrow> \<not> isInteger t) \<and>
   (0x002E \<in> set t \<longrightarrow> \<not> isInteger t) \<and>
   \<not> isInteger (lit '''') \<and> \<not> isInteger (lit ''1.5'') \<and> \<not> isInteger (lit ''abc'')"
proof -
  have other: "\<not> isInteger t"
    if "c \<in> set t" "\<not> is_space c" "c \<noteq> 0x002D" "\<not> is_decimal_digit c" for c
  proof
    assume "isInteger t"
    then have "integer_literal (trim t)" by (simp add: isInteger_literal)
    moreover have "c \<in> set (trim t)" using that by (simp add: in_trim)
    ultimately show False using that integer_literal_chars by blast
  qed
  have "isInteger t = (trim t \<noteq> [] \<and> integer_literal (trim t))"
    using integer_literal_nonempty by (auto simp: isInteger_literal)
  moreover have "list_ex is_latin_letter t \<longrightarrow> \<not> isInteger t"
  proof
    assume "list_ex is_latin_letter t"
    then obtain c where c: "c \<in> set t" "is_latin_letter c" by (auto simp: list_ex_iff)
    then have "\<not> is_space c \<and> c \<noteq> 0x002D \<and> \<not> is_decimal_digit c"
      by (auto simp: is_latin_letter_def is_space_def is_WhiteSpace_def is_LineTerminator_def
          is_decimal_digit_def word_le_nat_alt)
    then show "\<not> isInteger t" using other c by blast
  qed
  moreover have "0x002E \<in> set t \<longrightarrow> \<not> isInteger t"
  proof
    assume "0x002E \<in> set t"
    moreover have "\<not> is_space 0x002E \<and> (0x002E :: code_unit) \<noteq> 0x002D \<and> \<not> is_decimal_digit 0x002E"
      by (simp add: is_space_def is_WhiteSpace_def is_LineTerminator_def is_decimal_digit_def)
    ultimately show "\<not> isInteger t" using other by blast
  qed
  moreover have "\<not> isInteger (lit '''')"
    by (simp add: isInteger_literal lit_Nil trim_Nil integer_literal_def)
  moreover have "\<not> isInteger (lit ''1.5'')"
    by (simp add: isInteger_literal unfold_strings integer_literal_def is_decimal_digit_def)
  moreover have "\<not> isInteger (lit ''abc'')"
    by (simp add: isInteger_literal unfold_strings integer_literal_def is_decimal_digit_def)
  ultimately show ?thesis by blast
qed

theorem isInteger_iff_integer_literal_witness:
  "list_ex is_latin_letter (lit ''12abc'') \<and> \<not> isInteger (lit ''12abc'') \<and>
   0x002E \<in> set (lit ''10.99'') \<and> \<not> isInteger (lit ''10.99'') \<and>
   isInteger (lit '' 50 '') \<and> integer_literal (trim (lit '' 50 ''))"
proof -
  have "list_ex is_latin_letter (lit ''12abc'')" by (simp add: unfold_strings)
  moreover have "0x002E \<in> set (lit ''10.99'')" by (simp add: unfold_strings)
  moreover have "integer_literal (trim (lit '' 50 ''))"
    by (simp add: unfold_strings integer_literal_def is_decimal_digit_def)
  ultimately show ?thesis
    using isInteger_iff_integer_literal [of "lit ''12abc''"]
      isInteger_iff_integer_literal [of "lit ''10.99''"]
      isInteger_iff_integer_literal [of "lit '' 50 ''"] integer_literal_nonempty by blast
qed


text \<open>
  C3. On integer arguments \<^verbatim>\<open>validateInputRanges\<close> returns the locks message exactly
  when locks is outside 1 to 70, the stocks message exactly when stocks is outside 1 to 80
  and the barrels message exactly when barrels is outside 1 to 90: each field is judged
  alone, gives at most one message, and the messages come in the order locks, stocks,
  barrels. The bounds themselves are valid, and \<^verbatim>\<open>(0,0,0)\<close> gives all three messages.
\<close>

theorem validateInputRanges_integers:
  "validateInputRanges (Finite (of_int l)) (Finite (of_int s)) (Finite (of_int b)) =
     (if l < 1 \<or> 70 < l then [lit ''Locks must be between 1 and 70''] else []) @
     (if s < 1 \<or> 80 < s then [lit ''Stocks must be between 1 and 80''] else []) @
     (if b < 1 \<or> 90 < b then [lit ''Barrels must be between 1 and 90''] else []) \<and>
   validateInputRanges (Finite 1) (Finite 1) (Finite 1) = [] \<and>
   validateInputRanges (Finite 70) (Finite 80) (Finite 90) = [] \<and>
   validateInputRanges (Finite 0) (Finite 0) (Finite 0) =
     [lit ''Locks must be between 1 and 70'', lit ''Stocks must be between 1 and 80'',
      lit ''Barrels must be between 1 and 90'']"
proof -
  have "validateInputRanges (Finite (of_int l)) (Finite (of_int s)) (Finite (of_int b)) =
     (if l < 1 \<or> 70 < l then [lit ''Locks must be between 1 and 70''] else []) @
     (if s < 1 \<or> 80 < s then [lit ''Stocks must be between 1 and 80''] else []) @
     (if b < 1 \<or> 90 < b then [lit ''Barrels must be between 1 and 90''] else [])"
    unfolding validateInputRanges_parts out_of_range_int by (rule refl)
  moreover have "validateInputRanges (Finite 1) (Finite 1) (Finite 1) = []"
    by (simp add: validateInputRanges_parts isNaN_def number_greater_def)
  moreover have "validateInputRanges (Finite 70) (Finite 80) (Finite 90) = []"
    by (simp add: validateInputRanges_parts isNaN_def number_greater_def)
  moreover have "validateInputRanges (Finite 0) (Finite 0) (Finite 0) =
     [lit ''Locks must be between 1 and 70'', lit ''Stocks must be between 1 and 80'',
      lit ''Barrels must be between 1 and 90'']"
    by (simp add: validateInputRanges_parts isNaN_def number_greater_def)
  ultimately show ?thesis by blast
qed

text \<open>
  C4. A NaN argument is out of range for its field, whatever the other arguments: the
  field's message is in the result, and whether each of the other two messages is in the
  result is what it would be with any other value in the place of the NaN.
  \<^verbatim>\<open>validateInputRanges(NaN, 50, 50)\<close> is the locks message alone.
\<close>

theorem validateInputRanges_NaN:
  "lit ''Locks must be between 1 and 70'' \<in> set (validateInputRanges NaN s b) \<and>
   lit ''Stocks must be between 1 and 80'' \<in> set (validateInputRanges l NaN b) \<and>
   lit ''Barrels must be between 1 and 90'' \<in> set (validateInputRanges l s NaN) \<and>
   (lit ''Stocks must be between 1 and 80'' \<in> set (validateInputRanges NaN s b)) =
     (lit ''Stocks must be between 1 and 80'' \<in> set (validateInputRanges l s b)) \<and>
   (lit ''Barrels must be between 1 and 90'' \<in> set (validateInputRanges NaN s b)) =
     (lit ''Barrels must be between 1 and 90'' \<in> set (validateInputRanges l s b)) \<and>
   (lit ''Locks must be between 1 and 70'' \<in> set (validateInputRanges l NaN b)) =
     (lit ''Locks must be between 1 and 70'' \<in> set (validateInputRanges l s b)) \<and>
   (lit ''Barrels must be between 1 and 90'' \<in> set (validateInputRanges l NaN b)) =
     (lit ''Barrels must be between 1 and 90'' \<in> set (validateInputRanges l s b)) \<and>
   (lit ''Locks must be between 1 and 70'' \<in> set (validateInputRanges l s NaN)) =
     (lit ''Locks must be between 1 and 70'' \<in> set (validateInputRanges l s b)) \<and>
   (lit ''Stocks must be between 1 and 80'' \<in> set (validateInputRanges l s NaN)) =
     (lit ''Stocks must be between 1 and 80'' \<in> set (validateInputRanges l s b)) \<and>
   validateInputRanges NaN (Finite 50) (Finite 50) = [lit ''Locks must be between 1 and 70'']"
proof -
  note d = range_messages_distinct range_messages_distinct [symmetric]
  have "validateInputRanges NaN (Finite 50) (Finite 50) = [lit ''Locks must be between 1 and 70'']"
    by (simp add: validateInputRanges_parts isNaN_def number_greater_def)
  moreover have "lit ''Locks must be between 1 and 70'' \<in> set (validateInputRanges NaN s b) \<and>
   lit ''Stocks must be between 1 and 80'' \<in> set (validateInputRanges l NaN b) \<and>
   lit ''Barrels must be between 1 and 90'' \<in> set (validateInputRanges l s NaN)"
    by (simp add: validateInputRanges_parts isNaN_def)
  moreover have "(lit ''Stocks must be between 1 and 80'' \<in> set (validateInputRanges NaN s b)) =
     (lit ''Stocks must be between 1 and 80'' \<in> set (validateInputRanges l s b)) \<and>
   (lit ''Barrels must be between 1 and 90'' \<in> set (validateInputRanges NaN s b)) =
     (lit ''Barrels must be between 1 and 90'' \<in> set (validateInputRanges l s b))"
    by (simp add: validateInputRanges_parts d)
  moreover have "(lit ''Locks must be between 1 and 70'' \<in> set (validateInputRanges l NaN b)) =
     (lit ''Locks must be between 1 and 70'' \<in> set (validateInputRanges l s b)) \<and>
   (lit ''Barrels must be between 1 and 90'' \<in> set (validateInputRanges l NaN b)) =
     (lit ''Barrels must be between 1 and 90'' \<in> set (validateInputRanges l s b))"
    by (simp add: validateInputRanges_parts d)
  moreover have "(lit ''Locks must be between 1 and 70'' \<in> set (validateInputRanges l s NaN)) =
     (lit ''Locks must be between 1 and 70'' \<in> set (validateInputRanges l s b)) \<and>
   (lit ''Stocks must be between 1 and 80'' \<in> set (validateInputRanges l s NaN)) =
     (lit ''Stocks must be between 1 and 80'' \<in> set (validateInputRanges l s b))"
    by (simp add: validateInputRanges_parts d)
  ultimately show ?thesis by blast
qed


text \<open>
  C5, as the claim words it, fails for one label. The empty-field message is the template
  \<^verbatim>\<open>Please enter\<close> followed by the label, and the integer-format message is the fixed
  string \<^verbatim>\<open>Please enter with integer or whole number\<close>: with the label
  \<^verbatim>\<open>with integer or whole number\<close> the two are the same string, so the value \<^verbatim>\<open>abc\<close>,
  whose trimmed form is not empty, gets the empty-field message of that label.
\<close>

theorem validateNumericField_label_collision:
  "\<not> ((validateNumericField (lit ''abc'') (lit ''with integer or whole number'') =
        lit ''Please enter '' @ lit ''with integer or whole number'') =
       (trim (lit ''abc'') = []))"
proof -
  have "trim (lit ''abc'') \<noteq> []" by (simp add: unfold_strings)
  moreover have "\<not> isInteger (lit ''abc'')"
    by (simp add: isInteger_literal unfold_strings integer_literal_def is_decimal_digit_def)
  moreover have "lit ''Please enter '' @ lit ''with integer or whole number'' =
      lit ''Please enter with integer or whole number''"
    by (simp add: lit_def)
  ultimately show ?thesis by (simp add: validateNumericField_cases)
qed

text \<open>
  C5, amended. \<^verbatim>\<open>validateNumericField(value, label)\<close> returns the empty-field message
  when the trimmed value is empty; otherwise the integer-format message exactly when
  \<^verbatim>\<open>isInteger(value)\<close> is false; otherwise the empty string. The empty string is returned
  exactly for a value that is non-empty after trimming and an integer, and the empty-field
  message exactly for a value empty after trimming whenever the label is not
  \<^verbatim>\<open>with integer or whole number\<close>. The three examples of the claim hold.
\<close>

theorem validateNumericField_outcomes:
  "validateNumericField v label =
     (if trim v = [] then lit ''Please enter '' @ label
      else if \<not> isInteger v then lit ''Please enter with integer or whole number''
      else []) \<and>
   (validateNumericField v label = []) = (trim v \<noteq> [] \<and> isInteger v) \<and>
   (trim v \<noteq> [] \<longrightarrow>
      (validateNumericField v label = lit ''Please enter with integer or whole number'') =
      (\<not> isInteger v)) \<and>
   (label \<noteq> lit ''with integer or whole number'' \<longrightarrow>
      (validateNumericField v label = lit ''Please enter '' @ label) = (trim v = [])) \<and>
   validateNumericField (lit '''') (lit ''Locks'') = lit ''Please enter Locks'' \<and>
   validateNumericField (lit ''1.5'') (lit ''Locks'') =
     lit ''Please enter with integer or whole number'' \<and>
   validateNumericField (lit ''10'') (lit ''Locks'') = []"
proof -
  have "validateNumericField v label =
     (if trim v = [] then lit ''Please enter '' @ label
      else if \<not> isInteger v then lit ''Please enter with integer or whole number''
      else [])"
    by (simp add: validateNumericField_cases)
  moreover have "(validateNumericField v label = []) = (trim v \<noteq> [] \<and> isInteger v)"
    using integer_message please_enter_nonempty by (simp add: validateNumericField_cases)
  moreover have "trim v \<noteq> [] \<longrightarrow>
      (validateNumericField v label = lit ''Please enter with integer or whole number'') =
      (\<not> isInteger v)"
    using integer_message [symmetric] by (simp add: validateNumericField_cases)
  moreover have "label \<noteq> lit ''with integer or whole number'' \<longrightarrow>
      (validateNumericField v label = lit ''Please enter '' @ label) = (trim v = [])"
    using please_enter_nonempty [of label, symmetric] please_enter_inject [of label]
    by (auto simp: validateNumericField_cases)
  moreover have "validateNumericField (lit '''') (lit ''Locks'') = lit ''Please enter Locks''"
    by (simp add: validateNumericField_cases) (simp add: unfold_strings)
  moreover have "validateNumericField (lit ''1.5'') (lit ''Locks'') =
     lit ''Please enter with integer or whole number''"
    by (simp add: validateNumericField_cases isInteger_literal)
      (simp add: unfold_strings integer_literal_def is_decimal_digit_def)
  moreover have "validateNumericField (lit ''10'') (lit ''Locks'') = []"
    by (simp add: validateNumericField_cases isInteger_literal)
      (simp add: unfold_strings integer_literal_def is_decimal_digit_def)
  ultimately show ?thesis by blast
qed

theorem validateNumericField_outcomes_witness:
  "trim (lit ''12abc'') \<noteq> [] \<and> lit ''Barrels'' \<noteq> lit ''with integer or whole number'' \<and>
   \<not> isInteger (lit ''12abc'') \<and>
   validateNumericField (lit ''12abc'') (lit ''Barrels'') =
     lit ''Please enter with integer or whole number'' \<and>
   validateNumericField (lit ''12abc'') (lit ''Barrels'') \<noteq> lit ''Please enter '' @ lit ''Barrels''"
proof -
  have "trim (lit ''12abc'') \<noteq> []" by (simp add: unfold_strings)
  moreover have "lit ''Barrels'' \<noteq> lit ''with integer or whole number''" by (simp add: lit_def)
  moreover have "\<not> isInteger (lit ''12abc'')"
    by (simp add: isInteger_literal unfold_strings integer_literal_def is_decimal_digit_def)
  ultimately show ?thesis
    using validateNumericField_outcomes [of "lit ''12abc''" "lit ''Barrels''"] by blast
qed

text \<open>
  C6, as the claim words it, fails: the integer-format message does not incorporate the
  label. For the value \<^verbatim>\<open>1.5\<close> and the label \<^verbatim>\<open>Locks\<close> the result is non-empty, the
  label does not occur in it, and it is the result for the label \<^verbatim>\<open>Stocks\<close> too.
\<close>

theorem integer_message_ignores_label:
  "validateNumericField (lit ''1.5'') (lit ''Locks'') \<noteq> [] \<and>
   \<not> incorporates (validateNumericField (lit ''1.5'') (lit ''Locks'')) (lit ''Locks'') \<and>
   validateNumericField (lit ''1.5'') (lit ''Locks'') =
     validateNumericField (lit ''1.5'') (lit ''Stocks'') \<and>
   validateNumericField_api (lit ''1.5'') (lit ''Locks'') \<noteq> [] \<and>
   \<not> incorporates (validateNumericField_api (lit ''1.5'') (lit ''Locks'')) (lit ''Locks'')"
proof -
  have "\<not> incorporates (lit ''Please enter with integer or whole number'') (lit ''Locks'')"
    by (simp add: lit_def)
  then show ?thesis
    using not_integer_1_5 integer_message
    by (simp add: validateNumericField_api_same validateNumericField_cases)
qed

text \<open>
  C6, amended. A non-empty result of \<^verbatim>\<open>validateNumericField(value, label)\<close>, in either
  copy, is the empty-field message, which incorporates the label, or the integer-format
  message, which is one fixed string: for a value that is not empty after trimming the
  result is the same for every label.
\<close>

theorem validateNumericField_messages:
  "(validateNumericField v label \<noteq> [] \<longrightarrow>
      validateNumericField v label = lit ''Please enter '' @ label \<or>
      validateNumericField v label = lit ''Please enter with integer or whole number'') \<and>
   (validateNumericField_api v label \<noteq> [] \<longrightarrow>
      validateNumericField_api v label = lit ''Please enter '' @ label \<or>
      validateNumericField_api v label = lit ''Please enter with integer or whole number'') \<and>
   incorporates (lit ''Please enter '' @ label) label \<and>
   (trim v \<noteq> [] \<longrightarrow>
      validateNumericField v label = validateNumericField v label' \<and>
      validateNumericField_api v label = validateNumericField_api v label')"
  by (simp add: validateNumericField_api_same validateNumericField_cases incorporates_suffix)

theorem validateNumericField_messages_witness:
  "validateNumericField (lit ''abc'') (lit ''Stocks'') \<noteq> [] \<and>
   validateNumericField_api (lit ''abc'') (lit ''Stocks'') \<noteq> [] \<and>
   trim (lit ''abc'') \<noteq> [] \<and>
   validateNumericField (lit ''abc'') (lit ''Stocks'') =
     lit ''Please enter with integer or whole number'' \<and>
   validateNumericField (lit ''abc'') (lit ''Stocks'') =
     validateNumericField (lit ''abc'') (lit ''Locks'')"
proof -
  have t: "trim (lit ''abc'') \<noteq> []" by (simp add: unfold_strings)
  have n: "\<not> isInteger (lit ''abc'')"
    by (simp add: isInteger_literal unfold_strings integer_literal_def is_decimal_digit_def)
  have v: "validateNumericField (lit ''abc'') (lit ''Stocks'') =
     lit ''Please enter with integer or whole number''"
    using t n by (simp add: validateNumericField_cases)
  then have "validateNumericField (lit ''abc'') (lit ''Stocks'') \<noteq> []"
    using integer_message by simp
  moreover have "validateNumericField_api (lit ''abc'') (lit ''Stocks'') \<noteq> []"
    using calculation by (simp add: validateNumericField_api_same)
  ultimately show ?thesis
    using t v validateNumericField_messages [of "lit ''abc''" "lit ''Stocks''" "lit ''Locks''"]
    by blast
qed



text \<open>
  C8. Every name the Latin-only \<^verbatim>\<open>validateName\<close> accepts is accepted by the bilingual
  one, and both reject with the empty-name message exactly the names whose trimmed form is
  empty.
\<close>

theorem validateName_api_more_permissive:
  "(validateName name = [] \<longrightarrow> validateName_api name = []) \<and>
   (validateName name = lit ''Please enter Employee Name'') = (trim name = []) \<and>
   (validateName_api name = lit ''Please enter Employee Name'') = (trim name = [])"
proof -
  have "list_all latin_char name \<Longrightarrow> list_all bilingual_char name"
    using latin_is_bilingual by (auto simp: list_all_iff)
  then have "validateName name = [] \<longrightarrow> validateName_api name = []"
    using empty_name_message english_message
    by (auto simp: validateName_cases validateName_api_cases split: if_splits)
  moreover have "(validateName name = lit ''Please enter Employee Name'') = (trim name = [])"
    using empty_name_message [symmetric] empty_vs_english [symmetric]
    by (simp add: validateName_cases)
  moreover have "(validateName_api name = lit ''Please enter Employee Name'') = (trim name = [])"
    using empty_name_message [symmetric] empty_vs_thai [symmetric]
    by (simp add: validateName_api_cases)
  ultimately show ?thesis by blast
qed

theorem validateName_api_more_permissive_witness:
  "validateName (lit ''John Doe'') = [] \<and> validateName_api (lit ''John Doe'') = []"
proof -
  have "validateName (lit ''John Doe'') = []"
    by (simp add: validateName_cases) (simp add: unfold_strings)
  then show ?thesis using validateName_api_more_permissive [of "lit ''John Doe''"] by blast
qed




text \<open>
  C10. The two copies of \<^verbatim>\<open>isInteger\<close>, \<^verbatim>\<open>validateNumericField\<close> and
  \<^verbatim>\<open>validateInputRanges\<close> return the same result on every input; only
  \<^verbatim>\<open>validateName\<close> differs, as on \<^verbatim>\<open>John123\<close>, where the two messages differ.
\<close>

theorem validator_copies_equal:
  "isInteger_api t = isInteger t \<and>
   validateNumericField_api v label = validateNumericField v label \<and>
   validateInputRanges_api l s b = validateInputRanges l s b \<and>
   validateName_api (lit ''John123'') \<noteq> validateName (lit ''John123'')"
proof -
  have "trim (lit ''John123'') \<noteq> []"
    "\<not> list_all bilingual_char (lit ''John123'')" "\<not> list_all latin_char (lit ''John123'')"
    by (simp_all add: unfold_strings)
  then have "validateName_api (lit ''John123'') \<noteq> validateName (lit ''John123'')"
    using english_vs_thai [symmetric] by (simp add: validateName_cases validateName_api_cases)
  then show ?thesis
    by (simp add: isInteger_api_same validateNumericField_api_same validateInputRanges_api_same)
qed


end
